theory Spec2Isabelle
  imports Main
begin

section \<open>Persistence schema (main.py, lines 32-77)\<close>

text \<open>
  The three tables of \<^verbatim>\<open>main.py\<close>. A column declared \<^verbatim>\<open>nullable=False\<close> (or a
  primary key) holds a value; the two foreign keys of a comment and the author key of a
  post are declared without it and may be NULL, hence \<open>int option\<close>. Python integers
  are unbounded, hence \<open>int\<close>. A \<open>string\<close> is the sequence of the code points of a
  Python \<^verbatim>\<open>str\<close>, each a \<open>char\<close>, which covers the code points below 256; text beyond
  that range is outside the model. The field names carry the table as a prefix because
  the three classes share the column names \<^verbatim>\<open>id\<close> and \<^verbatim>\<open>author_id\<close>.
\<close>

record user =
  u_id :: int
  u_email :: string
  u_name :: string
  u_password :: string

record blog_post =
  bp_id :: int
  bp_author_id :: "int option"
  bp_title :: string
  bp_subtitle :: string
  bp_date :: string
  bp_body :: string
  bp_img_url :: string

record comment =
  c_id :: int
  c_author_id :: "int option"
  c_post_id :: "int option"
  c_text :: string

text \<open>
  The state a request reads and writes: the three tables in storage order, and the two
  entries Flask keeps in the session cookie (the user id stored by \<^verbatim>\<open>login_user\<close> and the
  pending \<^verbatim>\<open>flash\<close> messages).
\<close>

record world =
  users :: "user list"
  blog_posts :: "blog_post list"
  comments :: "comment list"
  session_user_id :: "int option"
  flashes :: "string list"

section \<open>Requests, responses and the library functions the handlers call\<close>

text \<open>
  A request as a view function sees it, after Flask has matched the route: the method (the
  form routes are declared for \<^verbatim>\<open>GET\<close> and \<^verbatim>\<open>POST\<close>), whether the body carries the
  CSRF token that \<^verbatim>\<open>FlaskForm\<close> expects, and the fields of the body. The views of
  \<^verbatim>\<open>main.py\<close> that no property below concerns (\<^verbatim>\<open>logout\<close>, \<^verbatim>\<open>about\<close>, \<^verbatim>\<open>contact\<close>) are not
  modelled, nor is what a view prints or the \<^verbatim>\<open>Gravatar\<close> object it hands to a template.
\<close>

datatype http_method = GET | POST

record request =
  req_method :: http_method
  req_csrf_ok :: bool
  req_form :: "(string \<times> string) list"

record date =
  year :: nat
  month :: nat
  day :: nat

text \<open>
  What the handlers take from outside the repository and the model cannot compute: the
  syntax checks of the \<^verbatim>\<open>Email()\<close> and \<^verbatim>\<open>URL()\<close> validators, the salted password hash
  and its verification, and the clock read by \<^verbatim>\<open>date.today()\<close>.
\<close>

record env =
  email_syntax_ok :: "string \<Rightarrow> bool"
  url_syntax_ok :: "string \<Rightarrow> bool"
  generate_password_hash :: "string \<Rightarrow> string"
  check_password_hash :: "string \<Rightarrow> string \<Rightarrow> bool"
  today :: date

datatype endpoint =
  Get_all_posts | Register | Login | Logout | Show_post | About | Contact
  | Add_new_post | Edit_post | Delete_post

datatype error = AttributeError | IntegrityError | BuildError | UnmappedInstanceError

datatype template =
  Index_html "blog_post list"
  | Register_html
  | Login_html
  | Post_html "blog_post option" "comment list"
  | Make_post_html "string option list"

text \<open>
  A view function returns a rendered template or a redirect, stops with \<^verbatim>\<open>abort(code)\<close>,
  or lets an exception escape (\<open>Raised\<close>).
\<close>

datatype response =
  Render template
  | Redirect endpoint "int option"
  | Abort nat
  | Raised error

text \<open>
  \<^verbatim>\<open>url_for\<close> over the routes declared in \<^verbatim>\<open>main.py\<close>. The rules of \<^verbatim>\<open>show_post\<close>,
  \<^verbatim>\<open>edit_post\<close> and \<^verbatim>\<open>delete_post\<close> have the variable part \<^verbatim>\<open>post_id\<close>; building one
  of them without a value for it raises \<^verbatim>\<open>BuildError\<close> (the application registers no
  build-error handler and no URL defaults). Any other call yields the target.
\<close>

fun url_for :: "endpoint \<Rightarrow> int option \<Rightarrow> error + (endpoint \<times> int option)" where
  "url_for Show_post None = Inl BuildError"
| "url_for Edit_post None = Inl BuildError"
| "url_for Delete_post None = Inl BuildError"
| "url_for ep v = Inr (ep, v)"

definition redirect :: "error + (endpoint \<times> int option) \<Rightarrow> response" where
  "redirect target = (case target of Inl e \<Rightarrow> Raised e | Inr (ep, v) \<Rightarrow> Redirect ep v)"

definition flash :: "string \<Rightarrow> world \<Rightarrow> world" where
  "flash msg w = w\<lparr>flashes := flashes w @ [msg]\<rparr>"

section \<open>Identity (main.py, lines 80-82, and flask_login's current_user)\<close>

datatype identity = Anonymous | Authenticated user

definition user_load :: "world \<Rightarrow> int \<Rightarrow> user option" where
  "user_load w i = find (\<lambda>u. u_id u = i) (users w)"

text \<open>
  \<^verbatim>\<open>current_user\<close>: the session's user id resolved through \<open>user_load\<close>; a session
  without an id, or with an id that no longer resolves, is the anonymous user.
\<close>

definition current_user :: "world \<Rightarrow> identity" where
  "current_user w =
     (case session_user_id w of
        None \<Rightarrow> Anonymous
      | Some i \<Rightarrow> (case user_load w i of None \<Rightarrow> Anonymous | Some u \<Rightarrow> Authenticated u))"

definition is_anonymous :: "identity \<Rightarrow> bool" where
  "is_anonymous cu = (case cu of Anonymous \<Rightarrow> True | Authenticated u \<Rightarrow> False)"

definition is_authenticated :: "identity \<Rightarrow> bool" where
  "is_authenticated cu = (case cu of Anonymous \<Rightarrow> False | Authenticated u \<Rightarrow> True)"

definition login_user :: "user \<Rightarrow> world \<Rightarrow> world" where
  "login_user u w = w\<lparr>session_user_id := Some (u_id u)\<rparr>"

section \<open>Form validation (forms.py)\<close>

text \<open>
  A form reads the request body only when the request is a submission; a field then takes
  the submitted value when the body has one under its name and keeps its default (the
  keyword argument the form was built with, or nothing) otherwise.
\<close>

definition is_submitted :: "request \<Rightarrow> bool" where
  "is_submitted r = (req_method r = POST)"

definition formdata :: "request \<Rightarrow> (string \<times> string) list option" where
  "formdata r = (if is_submitted r then Some (req_form r) else None)"

definition process :: "string option \<Rightarrow> request \<Rightarrow> string \<Rightarrow> string option" where
  "process dflt r name =
     (case formdata r of
        None \<Rightarrow> dflt
      | Some fd \<Rightarrow> (case map_of fd name of None \<Rightarrow> dflt | Some v \<Rightarrow> Some v))"

text \<open>
  Python's \<^verbatim>\<open>str.strip()\<close> removes the characters \<^verbatim>\<open>str.isspace\<close> accepts. Below 256
  these are the code points 9 to 13, 28 to 32, 133 (next line) and 160 (no-break space).
\<close>

definition isspace :: "char \<Rightarrow> bool" where
  "isspace c =
     (let n = (of_char c :: nat)
      in (9 \<le> n \<and> n \<le> 13) \<or> (28 \<le> n \<and> n \<le> 32) \<or> n = 133 \<or> n = 160)"

definition strip :: "string \<Rightarrow> string" where
  "strip s = rev (dropWhile isspace (rev (dropWhile isspace s)))"

definition DataRequired :: "string option \<Rightarrow> bool" where
  "DataRequired d = (case d of None \<Rightarrow> False | Some s \<Rightarrow> s \<noteq> [] \<and> strip s \<noteq> [])"

definition Length_min :: "nat \<Rightarrow> string option \<Rightarrow> bool" where
  "Length_min n d = (case d of None \<Rightarrow> n \<le> 0 | Some s \<Rightarrow> n \<le> length s)"

definition Email :: "env \<Rightarrow> string option \<Rightarrow> bool" where
  "Email e d = (case d of None \<Rightarrow> False | Some s \<Rightarrow> email_syntax_ok e s)"

definition URL :: "env \<Rightarrow> string option \<Rightarrow> bool" where
  "URL e d = (case d of None \<Rightarrow> False | Some s \<Rightarrow> url_syntax_ok e s)"

record create_post_form =
  cpf_title :: "string option"
  cpf_img_url :: "string option"
  cpf_subtitle :: "string option"
  cpf_author :: "string option"
  cpf_body :: "string option"

record register_form =
  rf_name :: "string option"
  rf_email :: "string option"
  rf_password :: "string option"

record login_form =
  lf_email :: "string option"
  lf_password :: "string option"

record comment_form =
  cf_comment :: "string option"

definition no_defaults :: create_post_form where
  "no_defaults =
     \<lparr>cpf_title = None, cpf_img_url = None, cpf_subtitle = None, cpf_author = None,
      cpf_body = None\<rparr>"

definition CreatePostForm :: "create_post_form \<Rightarrow> request \<Rightarrow> create_post_form" where
  "CreatePostForm kwargs r =
     \<lparr>cpf_title = process (cpf_title kwargs) r ''title'',
      cpf_img_url = process (cpf_img_url kwargs) r ''img_url'',
      cpf_subtitle = process (cpf_subtitle kwargs) r ''subtitle'',
      cpf_author = process (cpf_author kwargs) r ''author'',
      cpf_body = process (cpf_body kwargs) r ''body''\<rparr>"

definition RegisterForm :: "request \<Rightarrow> register_form" where
  "RegisterForm r =
     \<lparr>rf_name = process None r ''name'',
      rf_email = process None r ''email'',
      rf_password = process None r ''password''\<rparr>"

definition LoginForm :: "request \<Rightarrow> login_form" where
  "LoginForm r =
     \<lparr>lf_email = process None r ''email'', lf_password = process None r ''password''\<rparr>"

definition CommentForm :: "request \<Rightarrow> comment_form" where
  "CommentForm r = \<lparr>cf_comment = process None r ''comment''\<rparr>"

text \<open>
  \<open>validate\<close>: the CSRF token that every \<^verbatim>\<open>FlaskForm\<close> checks, then each field's
  validators in the order \<^verbatim>\<open>forms.py\<close> lists them. \<^verbatim>\<open>CommentForm\<close> declares none.
\<close>

definition CreatePostForm_validate :: "env \<Rightarrow> request \<Rightarrow> create_post_form \<Rightarrow> bool" where
  "CreatePostForm_validate e r f =
     (req_csrf_ok r
      \<and> DataRequired (cpf_title f)
      \<and> (DataRequired (cpf_img_url f) \<and> URL e (cpf_img_url f))
      \<and> DataRequired (cpf_subtitle f)
      \<and> DataRequired (cpf_author f)
      \<and> DataRequired (cpf_body f))"

definition RegisterForm_validate :: "env \<Rightarrow> request \<Rightarrow> register_form \<Rightarrow> bool" where
  "RegisterForm_validate e r f =
     (req_csrf_ok r
      \<and> DataRequired (rf_name f)
      \<and> (DataRequired (rf_email f) \<and> Email e (rf_email f))
      \<and> (DataRequired (rf_password f) \<and> Length_min 4 (rf_password f)))"

definition LoginForm_validate :: "env \<Rightarrow> request \<Rightarrow> login_form \<Rightarrow> bool" where
  "LoginForm_validate e r f =
     (req_csrf_ok r
      \<and> (DataRequired (lf_email f) \<and> Email e (lf_email f))
      \<and> DataRequired (lf_password f))"

definition CommentForm_validate :: "request \<Rightarrow> comment_form \<Rightarrow> bool" where
  "CommentForm_validate r f = req_csrf_ok r"

definition validate_on_submit :: "request \<Rightarrow> bool \<Rightarrow> bool" where
  "validate_on_submit r valid = (is_submitted r \<and> valid)"

definition form_fields :: "create_post_form \<Rightarrow> string option list" where
  "form_fields f = [cpf_title f, cpf_img_url f, cpf_subtitle f, cpf_author f, cpf_body f]"

section \<open>Queries\<close>

text \<open>
  The key SQLite gives a new row of an \<^verbatim>\<open>INTEGER PRIMARY KEY\<close> table: one more than the
  largest key in the table, and 1 in an empty table (keys are positive).
\<close>

definition next_id :: "int list \<Rightarrow> int" where
  "next_id ids = fold max ids 0 + 1"

definition get_post :: "world \<Rightarrow> int \<Rightarrow> blog_post option" where
  "get_post w i = find (\<lambda>p. bp_id p = i) (blog_posts w)"

definition filter_by_email :: "world \<Rightarrow> string \<Rightarrow> user option" where
  "filter_by_email w em = find (\<lambda>u. u_email u = em) (users w)"

definition filter_by_post_id :: "world \<Rightarrow> int \<Rightarrow> comment list" where
  "filter_by_post_id w i = filter (\<lambda>c. c_post_id c = Some i) (comments w)"

text \<open>The \<^verbatim>\<open>author\<close> relationship of a post: the user row its \<^verbatim>\<open>author_id\<close> names.\<close>

definition post_author :: "world \<Rightarrow> blog_post \<Rightarrow> user option" where
  "post_author w p = (case bp_author_id p of None \<Rightarrow> None | Some a \<Rightarrow> user_load w a)"

section \<open>Dates: date.today().strftime("%B %d, %Y")\<close>

definition digit_char :: "nat \<Rightarrow> char" where
  "digit_char n = ''0123456789'' ! (n mod 10)"

fun dec :: "nat \<Rightarrow> string" where
  "dec n = (if n < 10 then [digit_char n] else dec (n div 10) @ [digit_char (n mod 10)])"

declare dec.simps [simp del]

text \<open>\<^verbatim>\<open>%B\<close>: the full month name; a \<^verbatim>\<open>date\<close> has its month in 1..12.\<close>

definition month_name :: "nat \<Rightarrow> string" where
  "month_name m =
     (if m = 1 then ''January'' else if m = 2 then ''February''
      else if m = 3 then ''March'' else if m = 4 then ''April''
      else if m = 5 then ''May'' else if m = 6 then ''June''
      else if m = 7 then ''July'' else if m = 8 then ''August''
      else if m = 9 then ''September'' else if m = 10 then ''October''
      else if m = 11 then ''November'' else if m = 12 then ''December''
      else [])"

text \<open>\<^verbatim>\<open>%d\<close>: the day of the month, zero-padded to two digits.\<close>

definition pad2 :: "nat \<Rightarrow> string" where
  "pad2 n = (if n < 10 then CHR ''0'' # dec n else dec n)"

definition strftime_B_d_Y :: "date \<Rightarrow> string" where
  "strftime_B_d_Y d = month_name (month d) @ '' '' @ pad2 (day d) @ '', '' @ dec (year d)"

text \<open>
  The format as the specification words it, \<^verbatim>\<open>"Month DD, YYYY"\<close>: an English month name,
  a space, two digits, a comma and a space, four digits. This recogniser is written from
  the specification, to compare \<open>strftime_B_d_Y\<close> with.
\<close>

definition is_digit :: "char \<Rightarrow> bool" where
  "is_digit c = (c \<in> set ''0123456789'')"

definition month_names :: "string list" where
  "month_names =
     [''January'', ''February'', ''March'', ''April'', ''May'', ''June'', ''July'',
      ''August'', ''September'', ''October'', ''November'', ''December'']"

definition is_DD_YYYY :: "string \<Rightarrow> bool" where
  "is_DD_YYYY s =
     (length s = 9 \<and> s ! 0 = CHR '' '' \<and> is_digit (s ! 1) \<and> is_digit (s ! 2)
      \<and> s ! 3 = CHR '','' \<and> s ! 4 = CHR '' ''
      \<and> is_digit (s ! 5) \<and> is_digit (s ! 6) \<and> is_digit (s ! 7) \<and> is_digit (s ! 8))"

definition is_Month_DD_YYYY :: "string \<Rightarrow> bool" where
  "is_Month_DD_YYYY s =
     list_ex (\<lambda>m. take (length m) s = m \<and> is_DD_YYYY (drop (length m) s)) month_names"

text \<open>
  Reading such a string back, also written from the specification's format and not from
  the formatter: the month is the number of the name the string starts with, the day is
  the value of the two digits after the space, the year the value of the four digits after
  the comma. The digits are read by their values, not compared with printed ones.
\<close>

definition digit_value :: "char \<Rightarrow> nat" where
  "digit_value c = of_char c - 48"

definition number :: "string \<Rightarrow> nat" where
  "number ds = foldl (\<lambda>a c. 10 * a + digit_value c) 0 ds"

definition month_table :: "(string \<times> nat) list" where
  "month_table =
     [(''January'', 1), (''February'', 2), (''March'', 3), (''April'', 4), (''May'', 5),
      (''June'', 6), (''July'', 7), (''August'', 8), (''September'', 9), (''October'', 10),
      (''November'', 11), (''December'', 12)]"

definition parse_Month_DD_YYYY :: "string \<Rightarrow> date option" where
  "parse_Month_DD_YYYY s =
     (case find (\<lambda>(name, m). take (length name) s = name
                              \<and> is_DD_YYYY (drop (length name) s)) month_table of
        None \<Rightarrow> None
      | Some (name, m) \<Rightarrow>
          (let rest = drop (length name) s
           in Some \<lparr>year = number (drop 5 rest), month = m, day = number (take 2 (drop 1 rest))\<rparr>))"

section \<open>The authorization gate (main.py, lines 85-94)\<close>

type_synonym view = "env \<Rightarrow> request \<Rightarrow> world \<Rightarrow> response \<times> world"

text \<open>
  \<^verbatim>\<open>current_user.is_anonymous or current_user.id != 1\<close>: the second disjunct is read only
  for an authenticated user.
\<close>

definition admin_only :: "view \<Rightarrow> view" where
  "admin_only f e r w =
     (if is_anonymous (current_user w)
         \<or> (case current_user w of Anonymous \<Rightarrow> True | Authenticated u \<Rightarrow> u_id u \<noteq> 1)
      then (Abort 403, w)
      else f e r w)"

section \<open>The routes\<close>

subsection \<open>get_all_posts (lines 97-101)\<close>

definition get_all_posts :: view where
  "get_all_posts e r w = (Render (Index_html (blog_posts w)), w)"

subsection \<open>register (lines 104-122)\<close>

text \<open>
  \<^verbatim>\<open>request.form['email']\<close> answers a missing key with 400 Bad Request. The three columns
  of a user are not nullable, so a row with a missing value is refused at the commit.
\<close>

definition register :: view where
  "register e r w =
     (let form = RegisterForm r in
      if validate_on_submit r (RegisterForm_validate e r form) then
        (case map_of (req_form r) ''email'' of
           None \<Rightarrow> (Abort 400, w)
         | Some em \<Rightarrow>
             if filter_by_email w em \<noteq> None then
               (let w1 = flash ''This Email is already registered!, Try Login instead.'' w
                in (redirect (url_for Login None), w1))
             else
               (case (rf_name form, rf_email form, rf_password form) of
                  (Some n, Some em', Some pw) \<Rightarrow>
                    (let new_user =
                           \<lparr>u_id = next_id (map u_id (users w)), u_email = em', u_name = n,
                            u_password = generate_password_hash e pw\<rparr>;
                         w1 = w\<lparr>users := users w @ [new_user]\<rparr>;
                         w2 = login_user new_user w1
                     in (redirect (url_for Get_all_posts None), w2))
                | _ \<Rightarrow> (Raised IntegrityError, w)))
      else (Render Register_html, w))"

subsection \<open>login (lines 125-140)\<close>

definition login :: view where
  "login e r w =
     (let form_login = LoginForm r in
      if validate_on_submit r (LoginForm_validate e r form_login) then
        (case map_of (req_form r) ''email'' of
           None \<Rightarrow> (Abort 400, w)
         | Some em \<Rightarrow>
             (case filter_by_email w em of
                Some u \<Rightarrow>
                  (case map_of (req_form r) ''password'' of
                     None \<Rightarrow> (Abort 400, w)
                   | Some pw \<Rightarrow>
                       if check_password_hash e (u_password u) pw then
                         (redirect (url_for Get_all_posts None), login_user u w)
                       else
                         (let w1 = flash ''Wrong Password, Try again!'' w
                          in (redirect (url_for Login None), w1)))
              | None \<Rightarrow>
                  (let w1 = flash ''This Email is invalid!'' w
                   in (redirect (url_for Login None), w1))))
      else (Render Login_html, w))"

subsection \<open>show_post (lines 150-177)\<close>

text \<open>
  The comment is built from the form's data, the current user and the post that was looked
  up (its key, or NULL when there is no such post); \<^verbatim>\<open>text\<close> is not nullable. After the
  commit the handler evaluates \<^verbatim>\<open>redirect(url_for('show_post'))\<close> and drops the value:
  only an exception of that expression can change the outcome, and the handler goes on to
  render the page with the comments it had queried at its start.
\<close>

definition show_post :: "int \<Rightarrow> view" where
  "show_post post_id e r w =
     (let requested_post = get_post w post_id;
          post_comments = filter_by_post_id w post_id;
          comment_form = CommentForm r
      in
      if validate_on_submit r (CommentForm_validate r comment_form) then
        (case current_user w of
           Authenticated u \<Rightarrow>
             (case cf_comment comment_form of
                None \<Rightarrow> (Raised IntegrityError, w)
              | Some t \<Rightarrow>
                  (let new_comment =
                         \<lparr>c_id = next_id (map c_id (comments w)),
                          c_author_id = Some (u_id u),
                          c_post_id = map_option bp_id requested_post,
                          c_text = t\<rparr>;
                       w1 = w\<lparr>comments := comments w @ [new_comment]\<rparr>
                   in (case url_for Show_post None of
                         Inl err \<Rightarrow> (Raised err, w1)
                       | Inr target \<Rightarrow>
                           (Render (Post_html requested_post post_comments), w1))))
         | Anonymous \<Rightarrow>
             (let w1 = flash ''You need to Login to comment'' w
              in (redirect (url_for Login None), w1)))
      else (Render (Post_html requested_post post_comments), w))"

subsection \<open>add_new_post (lines 200-216)\<close>

text \<open>
  The body of the route, and the route as declared, behind the gate. The anonymous user
  has no \<^verbatim>\<open>id\<close> attribute. The title column is unique and a second row with a stored
  title is refused at the commit.
\<close>

definition add_new_post_body :: view where
  "add_new_post_body e r w =
     (let form = CreatePostForm no_defaults r in
      if validate_on_submit r (CreatePostForm_validate e r form) then
        (case current_user w of
           Anonymous \<Rightarrow> (Raised AttributeError, w)
         | Authenticated u \<Rightarrow>
             (case (cpf_title form, cpf_subtitle form, cpf_body form, cpf_img_url form) of
                (Some t, Some s, Some b, Some i) \<Rightarrow>
                  (let new_post =
                         \<lparr>bp_id = next_id (map bp_id (blog_posts w)),
                          bp_author_id = Some (u_id u),
                          bp_title = t, bp_subtitle = s,
                          bp_date = strftime_B_d_Y (today e),
                          bp_body = b, bp_img_url = i\<rparr>
                   in if list_ex (\<lambda>q. bp_title q = t) (blog_posts w)
                      then (Raised IntegrityError, w)
                      else (redirect (url_for Get_all_posts None),
                            w\<lparr>blog_posts := blog_posts w @ [new_post]\<rparr>))
              | _ \<Rightarrow> (Raised IntegrityError, w)))
      else (Render (Make_post_html (form_fields form)), w))"

definition add_new_post :: view where
  "add_new_post = admin_only add_new_post_body"

subsection \<open>edit_post (lines 219-239)\<close>

text \<open>
  A missing post, or a post without an author row, ends the handler where the form is
  built (\<^verbatim>\<open>post.title\<close>, \<^verbatim>\<open>post.author.name\<close>); \<open>prefill\<close> is the keyword arguments
  the form is built with. The five assignments change the post row
  and the \<^verbatim>\<open>name\<close> of the author's user row; the commit refuses a title that another post
  holds, and then nothing is stored.
\<close>

definition prefill :: "blog_post \<Rightarrow> user \<Rightarrow> create_post_form" where
  "prefill post author =
     \<lparr>cpf_title = Some (bp_title post), cpf_img_url = Some (bp_img_url post),
      cpf_subtitle = Some (bp_subtitle post), cpf_author = Some (u_name author),
      cpf_body = Some (bp_body post)\<rparr>"

definition edit_post_body :: "int \<Rightarrow> view" where
  "edit_post_body post_id e r w =
     (case get_post w post_id of
        None \<Rightarrow> (Raised AttributeError, w)
      | Some post \<Rightarrow>
          (case post_author w post of
             None \<Rightarrow> (Raised AttributeError, w)
           | Some author \<Rightarrow>
               (let edit_form = CreatePostForm (prefill post author) r in
                if validate_on_submit r (CreatePostForm_validate e r edit_form) then
                  (case (cpf_title edit_form, cpf_subtitle edit_form, cpf_img_url edit_form,
                         cpf_author edit_form, cpf_body edit_form) of
                     (Some t, Some s, Some i, Some a, Some b) \<Rightarrow>
                       if list_ex (\<lambda>q. bp_id q \<noteq> bp_id post \<and> bp_title q = t) (blog_posts w)
                       then (Raised IntegrityError, w)
                       else
                         (redirect (url_for Show_post (Some (bp_id post))),
                          w\<lparr>blog_posts :=
                               map (\<lambda>q. if bp_id q = bp_id post
                                         then q\<lparr>bp_title := t, bp_subtitle := s,
                                                bp_img_url := i, bp_body := b\<rparr>
                                         else q) (blog_posts w),
                             users :=
                               map (\<lambda>v. if u_id v = u_id author then v\<lparr>u_name := a\<rparr> else v)
                                 (users w)\<rparr>)
                   | _ \<Rightarrow> (Raised IntegrityError, w))
                else (Render (Make_post_html (form_fields edit_form)), w))))"

definition edit_post :: "int \<Rightarrow> view" where
  "edit_post post_id = admin_only (edit_post_body post_id)"

subsection \<open>delete_post (lines 242-248)\<close>

text \<open>
  \<^verbatim>\<open>db.session.delete(None)\<close> raises. The \<^verbatim>\<open>post_comments\<close> relationship is declared
  without a delete cascade, so the comments of the deleted post stay in their table and
  the unit of work clears their \<^verbatim>\<open>post_id\<close>.
\<close>

definition delete_post_body :: "int \<Rightarrow> view" where
  "delete_post_body post_id e r w =
     (case get_post w post_id of
        None \<Rightarrow> (Raised UnmappedInstanceError, w)
      | Some post_to_delete \<Rightarrow>
          (redirect (url_for Get_all_posts None),
           w\<lparr>blog_posts := filter (\<lambda>q. bp_id q \<noteq> bp_id post_to_delete) (blog_posts w),
             comments :=
               map (\<lambda>c. if c_post_id c = Some (bp_id post_to_delete)
                         then c\<lparr>c_post_id := None\<rparr> else c) (comments w)\<rparr>))"

definition delete_post :: "int \<Rightarrow> view" where
  "delete_post post_id = admin_only (delete_post_body post_id)"

section \<open>The administrator, and example data\<close>

text \<open>
  The identity the gate admits, in the specification's words: authenticated, with the
  user id equal to the sentinel 1.
\<close>

definition is_admin :: "world \<Rightarrow> bool" where
  "is_admin w = (case current_user w of Anonymous \<Rightarrow> False | Authenticated u \<Rightarrow> u_id u = 1)"

text \<open>
  A small blog on which the theorems below are run: an administrator and a second user,
  two posts by the administrator, one comment, and stand-ins for the library functions.
\<close>

text \<open>
  The stand-ins for the two syntax checks are narrower than the validators: they accept
  only \<^verbatim>\<open>http://\<close> URLs and addresses whose host is a dotted name of lower-case letters
  and digits ending in a label of 2 to 20 letters, all of which the validators accept;
  a host without a dot, such as \<^verbatim>\<open>http://a\<close>, is refused as \<^verbatim>\<open>URL()\<close> refuses it.
\<close>

fun split_on :: "char \<Rightarrow> string \<Rightarrow> string list" where
  "split_on c [] = [[]]"
| "split_on c (x # xs) =
     (if x = c then [] # split_on c xs
      else (case split_on c xs of [] \<Rightarrow> [[x]] | l # ls \<Rightarrow> (x # l) # ls))"

definition lower :: "char \<Rightarrow> bool" where
  "lower c = (let n = (of_char c :: nat) in 97 \<le> n \<and> n \<le> 122)"

definition lower_or_digit :: "char \<Rightarrow> bool" where
  "lower_or_digit c = (let n = (of_char c :: nat) in lower c \<or> (48 \<le> n \<and> n \<le> 57))"

definition demo_host_ok :: "string \<Rightarrow> bool" where
  "demo_host_ok host =
     (let labels = split_on CHR ''.'' host
      in 2 \<le> length labels
         \<and> list_all (\<lambda>l. l \<noteq> [] \<and> length l \<le> 63 \<and> list_all lower_or_digit l) labels
         \<and> 2 \<le> length (last labels) \<and> length (last labels) \<le> 20
         \<and> list_all lower (last labels))"

definition demo_url_ok :: "string \<Rightarrow> bool" where
  "demo_url_ok s =
     (take 7 s = ''http://''
      \<and> demo_host_ok (takeWhile (\<lambda>c. c \<noteq> CHR ''/'') (drop 7 s))
      \<and> list_all (\<lambda>c. 33 \<le> (of_char c :: nat) \<and> (of_char c :: nat) \<le> 126)
           (dropWhile (\<lambda>c. c \<noteq> CHR ''/'') (drop 7 s)))"

definition demo_email_ok :: "string \<Rightarrow> bool" where
  "demo_email_ok s =
     (let local_part = takeWhile (\<lambda>c. c \<noteq> CHR ''@'') s;
          rest = dropWhile (\<lambda>c. c \<noteq> CHR ''@'') s
      in local_part \<noteq> [] \<and> list_all lower_or_digit local_part
         \<and> rest \<noteq> [] \<and> demo_host_ok (tl rest))"

definition demo_env :: env where
  "demo_env =
     \<lparr>email_syntax_ok = demo_email_ok,
      url_syntax_ok = demo_url_ok,
      generate_password_hash = (\<lambda>p. ''h:'' @ p),
      check_password_hash = (\<lambda>h p. h = ''h:'' @ p),
      today = \<lparr>year = 2026, month = 11, day = 3\<rparr>\<rparr>"

definition admin_user :: user where
  "admin_user =
     \<lparr>u_id = 1, u_email = ''admin@blog.com'', u_name = ''Admin'', u_password = ''h:secret''\<rparr>"

definition bob :: user where
  "bob = \<lparr>u_id = 2, u_email = ''bob@blog.com'', u_name = ''Bob'', u_password = ''h:hunter2''\<rparr>"

definition post_A :: blog_post where
  "post_A =
     \<lparr>bp_id = 1, bp_author_id = Some 1, bp_title = ''First'', bp_subtitle = ''one'',
      bp_date = ''October 05, 2026'', bp_body = ''aaa'', bp_img_url = ''http://a.com/a.png''\<rparr>"

definition post_B :: blog_post where
  "post_B =
     \<lparr>bp_id = 2, bp_author_id = Some 1, bp_title = ''Second'', bp_subtitle = ''two'',
      bp_date = ''October 09, 2026'', bp_body = ''bbb'', bp_img_url = ''http://b.com/b.png''\<rparr>"

definition comment_1 :: comment where
  "comment_1 = \<lparr>c_id = 1, c_author_id = Some 2, c_post_id = Some 1, c_text = ''Nice''\<rparr>"

definition demo_world :: "int option \<Rightarrow> world" where
  "demo_world s =
     \<lparr>users = [admin_user, bob], blog_posts = [post_A, post_B], comments = [comment_1],
      session_user_id = s, flashes = []\<rparr>"

definition get_request :: request where
  "get_request = \<lparr>req_method = GET, req_csrf_ok = False, req_form = []\<rparr>"

definition post_request :: "(string \<times> string) list \<Rightarrow> request" where
  "post_request fd = \<lparr>req_method = POST, req_csrf_ok = True, req_form = fd\<rparr>"

definition register_bob_again :: request where
  "register_bob_again =
     post_request [(''name'', ''Eve''), (''email'', ''bob@blog.com''), (''password'', ''12345'')]"

definition login_bob_wrong :: request where
  "login_bob_wrong = post_request [(''email'', ''bob@blog.com''), (''password'', ''letmein'')]"

definition comment_hello :: request where
  "comment_hello = post_request [(''comment'', ''Hello'')]"

definition comment_empty :: request where
  "comment_empty = post_request [(''comment'', [])]"

text \<open>
  The calendar dates whose year prints with four digits; \<^verbatim>\<open>date.today()\<close> is one.
\<close>

definition valid_date :: "date \<Rightarrow> bool" where
  "valid_date d =
     (1 \<le> month d \<and> month d \<le> 12 \<and> 1 \<le> day d \<and> day d \<le> 31
      \<and> 1000 \<le> year d \<and> year d \<le> 9999)"

definition new_post_request :: request where
  "new_post_request =
     post_request [(''title'', ''T1''), (''subtitle'', ''Sub''), (''img_url'', ''http://img.com/t1.png''),
                   (''author'', ''Admin''), (''body'', ''Text'')]"

definition demo_new_post :: blog_post where
  "demo_new_post =
     \<lparr>bp_id = 3, bp_author_id = Some 1, bp_title = ''T1'', bp_subtitle = ''Sub'',
      bp_date = ''November 03, 2026'', bp_body = ''Text'', bp_img_url = ''http://img.com/t1.png''\<rparr>"

definition edit_A_title_B :: request where
  "edit_A_title_B =
     post_request [(''title'', ''Second''), (''subtitle'', ''one''), (''img_url'', ''http://a.com/a.png''),
                   (''author'', ''Admin''), (''body'', ''aaa'')]"

definition edit_A_ok :: request where
  "edit_A_ok =
     post_request [(''title'', ''Fresh''), (''subtitle'', ''uno''), (''img_url'', ''http://c.com/c.png''),
                   (''author'', ''Root''), (''body'', ''ccc'')]"

definition demo_world_edited :: world where
  "demo_world_edited =
     \<lparr>users = [admin_user\<lparr>u_name := ''Root''\<rparr>, bob],
      blog_posts =
        [post_A\<lparr>bp_title := ''Fresh'', bp_subtitle := ''uno'', bp_img_url := ''http://c.com/c.png'',
                bp_body := ''ccc''\<rparr>, post_B],
      comments = [comment_1], session_user_id = Some 1, flashes = []\<rparr>"

section \<open>Properties\<close>

subsection \<open>Basic facts\<close>

lemmas demo_defs = demo_env_def admin_user_def bob_def post_A_def post_B_def comment_1_def
  demo_world_def get_request_def post_request_def

lemmas form_defs = validate_on_submit_def is_submitted_def formdata_def process_def
  DataRequired_def strip_def isspace_def Length_min_def Email_def URL_def
  demo_url_ok_def demo_email_ok_def demo_host_ok_def lower_or_digit_def lower_def

lemma redirect_simps:
  "redirect (Inr (ep, v)) = Redirect ep v"
  "redirect (Inl err) = Raised err"
  by (simp_all add: redirect_def)

lemma is_admin_demo:
  "is_admin (demo_world (Some 1))" "\<not> is_admin (demo_world (Some 2))"
  "\<not> is_admin (demo_world None)" "\<not> is_admin (demo_world (Some 7))"
  by (simp_all add: is_admin_def current_user_def user_load_def demo_defs)

lemma user_load_id: "user_load w i = Some u \<Longrightarrow> u_id u = i"
  by (auto simp: user_load_def find_Some_iff)

lemma current_user_loaded:
  "current_user w = Authenticated u \<Longrightarrow> user_load w (u_id u) = Some u"
  by (auto simp: current_user_def split: option.splits dest: user_load_id)

lemma demo_url_ok_examples:
  "\<not> demo_url_ok ''http://a''" "\<not> demo_url_ok ''http://img''"
  "demo_url_ok ''http://a.com/a.png''" "demo_url_ok ''http://img.com/t1.png''"
  by (simp_all add: demo_url_ok_def demo_host_ok_def lower_or_digit_def lower_def)

subsection \<open>The gate\<close>

lemma admin_only_admitted: "is_admin w \<Longrightarrow> admin_only f e r w = f e r w"
  by (auto simp: admin_only_def is_admin_def is_anonymous_def split: identity.splits)

lemma admin_only_rejected: "\<not> is_admin w \<Longrightarrow> admin_only f e r w = (Abort 403, w)"
  by (auto simp: admin_only_def is_admin_def is_anonymous_def split: identity.splits)

lemma add_new_post_body_not_403: "fst (add_new_post_body e r w) \<noteq> Abort 403"
  by (simp add: add_new_post_body_def Let_def redirect_simps
      split: identity.splits option.splits)

lemma edit_post_body_not_403: "fst (edit_post_body pid e r w) \<noteq> Abort 403"
  by (simp add: edit_post_body_def Let_def redirect_simps
      split: identity.splits option.splits)

lemma delete_post_body_not_403: "fst (delete_post_body pid e r w) \<noteq> Abort 403"
  by (simp add: delete_post_body_def Let_def redirect_simps
      split: identity.splits option.splits)

lemma admin_only_403_iff:
  assumes "\<And>w. fst (f e r w) \<noteq> Abort 403"
  shows "fst (admin_only f e r w) = Abort 403 \<longleftrightarrow> \<not> is_admin w"
  using assms by (cases "is_admin w") (simp_all add: admin_only_admitted admin_only_rejected)

text \<open>
  C1. On each of the three gated routes (\<^verbatim>\<open>/new-post\<close>, \<^verbatim>\<open>/edit-post/<post_id>\<close>,
  \<^verbatim>\<open>/delete/<post_id>\<close>) the route body runs if and only if the requesting identity is
  authenticated with user id 1: for that identity the route returns exactly what its body
  returns; for the anonymous identity and for every other user the route answers 403 and
  leaves the state as it was, so the body had no effect. No body answers 403 itself,
  so a 403 from a gated route means precisely that the caller is not the administrator.
\<close>

theorem admin_only_gate:
  "(is_admin w \<longrightarrow>
      add_new_post e r w = add_new_post_body e r w
      \<and> edit_post post_id e r w = edit_post_body post_id e r w
      \<and> delete_post post_id e r w = delete_post_body post_id e r w)
   \<and> (\<not> is_admin w \<longrightarrow>
      add_new_post e r w = (Abort 403, w)
      \<and> edit_post post_id e r w = (Abort 403, w)
      \<and> delete_post post_id e r w = (Abort 403, w))
   \<and> (fst (add_new_post e r w) = Abort 403 \<longleftrightarrow> \<not> is_admin w)
   \<and> (fst (edit_post post_id e r w) = Abort 403 \<longleftrightarrow> \<not> is_admin w)
   \<and> (fst (delete_post post_id e r w) = Abort 403 \<longleftrightarrow> \<not> is_admin w)"
proof -
  have admitted: "is_admin w \<Longrightarrow> admin_only f e r w = f e r w" for f
    by (rule admin_only_admitted)
  have rejected: "\<not> is_admin w \<Longrightarrow> admin_only f e r w = (Abort 403, w)" for f
    by (rule admin_only_rejected)
  have a: "fst (add_new_post e r w) = Abort 403 \<longleftrightarrow> \<not> is_admin w"
    unfolding add_new_post_def by (rule admin_only_403_iff) (rule add_new_post_body_not_403)
  have b: "fst (edit_post post_id e r w) = Abort 403 \<longleftrightarrow> \<not> is_admin w"
    unfolding edit_post_def by (rule admin_only_403_iff) (rule edit_post_body_not_403)
  have c: "fst (delete_post post_id e r w) = Abort 403 \<longleftrightarrow> \<not> is_admin w"
    unfolding delete_post_def by (rule admin_only_403_iff) (rule delete_post_body_not_403)
  show ?thesis
    using a b c by (simp add: add_new_post_def edit_post_def delete_post_def admitted rejected)
qed

theorem admin_only_gate_witness:
  "is_admin (demo_world (Some 1))
   \<and> delete_post 2 demo_env get_request (demo_world (Some 1))
       = delete_post_body 2 demo_env get_request (demo_world (Some 1))
   \<and> \<not> is_admin (demo_world (Some 2))
   \<and> delete_post 2 demo_env get_request (demo_world (Some 2)) = (Abort 403, demo_world (Some 2))
   \<and> \<not> is_admin (demo_world None)
   \<and> add_new_post demo_env get_request (demo_world None) = (Abort 403, demo_world None)"
  using admin_only_gate [of "demo_world (Some 1)" demo_env get_request 2]
    admin_only_gate [of "demo_world (Some 2)" demo_env get_request 2]
    admin_only_gate [of "demo_world None" demo_env get_request 2]
    is_admin_demo
  by simp

subsection \<open>Registration and login\<close>

lemma filter_by_email_member:
  "u \<in> set (users w) \<Longrightarrow> filter_by_email w (u_email u) \<noteq> None"
  by (auto simp: filter_by_email_def find_None_iff)

lemma current_user_flash [simp]: "current_user (flash msg w) = current_user w"
  by (simp add: current_user_def flash_def user_load_def split: option.splits)

text \<open>
  C3. A registration request whose \<^verbatim>\<open>email\<close> field equals the email of a stored user
  leaves the users table as it was and logs nobody in, whatever else the request holds.
  The handler never ends in a constraint violation on that path: when the form validates
  (a POST with a valid token whose fields pass their validators), the lookup
  \<^verbatim>\<open>filter_by(email=...).first()\<close> finds the row before anything is inserted, and the
  response is the redirect to \<^verbatim>\<open>login\<close> with the notice flashed.
\<close>

theorem register_duplicate_email:
  assumes stored: "u \<in> set (users w)"
    and email: "map_of (req_form r) ''email'' = Some (u_email u)"
  shows "users (snd (register e r w)) = users w
    \<and> session_user_id (snd (register e r w)) = session_user_id w
    \<and> fst (register e r w) \<noteq> Raised IntegrityError
    \<and> (validate_on_submit r (RegisterForm_validate e r (RegisterForm r)) \<longrightarrow>
         register e r w =
           (Redirect Login None,
            flash ''This Email is already registered!, Try Login instead.'' w))"
proof -
  have found: "filter_by_email w (u_email u) \<noteq> None"
    using stored by (rule filter_by_email_member)
  show ?thesis
    using found email
    by (simp add: register_def Let_def redirect_simps flash_def)
qed

theorem register_duplicate_email_witness:
  "bob \<in> set (users (demo_world None))
   \<and> map_of (req_form register_bob_again) ''email'' = Some (u_email bob)
   \<and> validate_on_submit register_bob_again
        (RegisterForm_validate demo_env register_bob_again (RegisterForm register_bob_again))
   \<and> register demo_env register_bob_again (demo_world None) =
        (Redirect Login None,
         flash ''This Email is already registered!, Try Login instead.'' (demo_world None))
   \<and> users (snd (register demo_env register_bob_again (demo_world None))) = [admin_user, bob]"
proof -
  have stored: "bob \<in> set (users (demo_world None))"
    by (simp add: demo_world_def)
  have email: "map_of (req_form register_bob_again) ''email'' = Some (u_email bob)"
    by (simp add: register_bob_again_def post_request_def bob_def)
  have valid: "validate_on_submit register_bob_again
        (RegisterForm_validate demo_env register_bob_again (RegisterForm register_bob_again))"
    by (simp add: register_bob_again_def post_request_def RegisterForm_validate_def
        RegisterForm_def form_defs demo_env_def)
  show ?thesis
    using register_duplicate_email [OF stored email, of demo_env] stored email valid
    by (simp add: demo_world_def flash_def)
qed

text \<open>
  C7. A login request whose email finds a stored user and whose password does not verify
  against that user's hash leaves the session as it was, so the identity of the requester
  on the next request is the one it had before: an anonymous requester stays anonymous.
  When the form validates, the response is the redirect back to \<^verbatim>\<open>login\<close> with the
  notice \<^verbatim>\<open>Wrong Password, Try again!\<close> flashed.
\<close>

theorem login_wrong_password:
  assumes email: "map_of (req_form r) ''email'' = Some em"
    and stored: "filter_by_email w em = Some u"
    and password: "map_of (req_form r) ''password'' = Some pw"
    and mismatch: "\<not> check_password_hash e (u_password u) pw"
  shows "session_user_id (snd (login e r w)) = session_user_id w
    \<and> current_user (snd (login e r w)) = current_user w
    \<and> (validate_on_submit r (LoginForm_validate e r (LoginForm r)) \<longrightarrow>
         login e r w = (Redirect Login None, flash ''Wrong Password, Try again!'' w))"
  using assms
  by (simp add: login_def Let_def redirect_simps) (simp add: flash_def)

theorem login_wrong_password_witness:
  "map_of (req_form login_bob_wrong) ''email'' = Some ''bob@blog.com''
   \<and> filter_by_email (demo_world None) ''bob@blog.com'' = Some bob
   \<and> map_of (req_form login_bob_wrong) ''password'' = Some ''letmein''
   \<and> \<not> check_password_hash demo_env (u_password bob) ''letmein''
   \<and> validate_on_submit login_bob_wrong
        (LoginForm_validate demo_env login_bob_wrong (LoginForm login_bob_wrong))
   \<and> login demo_env login_bob_wrong (demo_world None) =
        (Redirect Login None, flash ''Wrong Password, Try again!'' (demo_world None))
   \<and> current_user (snd (login demo_env login_bob_wrong (demo_world None))) = Anonymous"
proof -
  have email: "map_of (req_form login_bob_wrong) ''email'' = Some ''bob@blog.com''"
    by (simp add: login_bob_wrong_def post_request_def)
  have stored: "filter_by_email (demo_world None) ''bob@blog.com'' = Some bob"
    by (simp add: filter_by_email_def demo_world_def admin_user_def bob_def)
  have password: "map_of (req_form login_bob_wrong) ''password'' = Some ''letmein''"
    by (simp add: login_bob_wrong_def post_request_def)
  have mismatch: "\<not> check_password_hash demo_env (u_password bob) ''letmein''"
    by (simp add: demo_env_def bob_def)
  have valid: "validate_on_submit login_bob_wrong
        (LoginForm_validate demo_env login_bob_wrong (LoginForm login_bob_wrong))"
    by (simp add: login_bob_wrong_def post_request_def LoginForm_validate_def
        LoginForm_def form_defs demo_env_def)
  have anon: "current_user (demo_world None) = Anonymous"
    by (simp add: current_user_def demo_world_def)
  show ?thesis
    using login_wrong_password [OF email stored password mismatch]
      email stored password mismatch valid anon
    by simp
qed

subsection \<open>Fresh keys\<close>

lemma fold_max_lower: "a \<le> fold max xs (a::int)"
proof (induction xs arbitrary: a)
  case Nil
  show ?case by simp
next
  case (Cons x xs)
  have "a \<le> max x a" by simp
  also have "max x a \<le> fold max xs (max x a)" by (rule Cons.IH)
  finally show ?case by simp
qed

lemma fold_max_upper: "x \<in> set xs \<Longrightarrow> x \<le> fold max xs (a::int)"
proof (induction xs arbitrary: a)
  case Nil
  then show ?case by simp
next
  case (Cons y ys)
  show ?case
  proof (cases "x = y")
    case True
    have "x \<le> max y a" using True by simp
    also have "max y a \<le> fold max ys (max y a)" by (rule fold_max_lower)
    finally show ?thesis by simp
  next
    case False
    with Cons.prems have "x \<in> set ys" by simp
    then have "x \<le> fold max ys (max y a)" by (rule Cons.IH)
    then show ?thesis by simp
  qed
qed

lemma next_id_fresh: "next_id ids \<notin> set ids"
proof
  assume "next_id ids \<in> set ids"
  then have "next_id ids \<le> fold max ids 0" by (rule fold_max_upper)
  then show False by (simp add: next_id_def)
qed

subsection \<open>Comments\<close>

lemma get_post_id: "get_post w i = Some p \<Longrightarrow> bp_id p = i"
  by (auto simp: get_post_def find_Some_iff)

lemma comment_form_valid_iff:
  "validate_on_submit r (CommentForm_validate r (CommentForm r)) \<longleftrightarrow>
     req_method r = POST \<and> req_csrf_ok r"
  by (simp add: validate_on_submit_def CommentForm_validate_def is_submitted_def)

lemma comment_form_data:
  "req_method r = POST \<Longrightarrow> cf_comment (CommentForm r) = map_of (req_form r) ''comment''"
  by (simp add: CommentForm_def process_def formdata_def is_submitted_def split: option.splits)

lemma show_post_authenticated:
  assumes "req_method r = POST" "req_csrf_ok r" "current_user w = Authenticated u"
    "map_of (req_form r) ''comment'' = Some t"
  shows "show_post post_id e r w =
     (Raised BuildError,
      w\<lparr>comments := comments w @
          [\<lparr>c_id = next_id (map c_id (comments w)), c_author_id = Some (u_id u),
            c_post_id = map_option bp_id (get_post w post_id), c_text = t\<rparr>]\<rparr>)"
  using assms
  by (simp add: show_post_def Let_def comment_form_valid_iff comment_form_data)

lemma show_post_anonymous:
  assumes "current_user w = Anonymous"
  shows "show_post post_id e r w =
     (if req_method r = POST \<and> req_csrf_ok r
      then (Redirect Login None, flash ''You need to Login to comment'' w)
      else (Render (Post_html (get_post w post_id) (filter_by_post_id w post_id)), w))"
  using assms
  by (simp add: show_post_def Let_def comment_form_valid_iff redirect_simps)

lemma demo_current_user:
  "current_user (demo_world None) = Anonymous"
  "current_user (demo_world (Some 1)) = Authenticated admin_user"
  "current_user (demo_world (Some 2)) = Authenticated bob"
  by (simp_all add: current_user_def user_load_def demo_world_def admin_user_def bob_def)

lemma demo_get_post:
  "get_post (demo_world s) 1 = Some post_A"
  "get_post (demo_world s) 2 = Some post_B"
  by (simp_all add: get_post_def demo_world_def post_A_def post_B_def)

lemma demo_comment_requests:
  "validate_on_submit comment_hello (CommentForm_validate comment_hello (CommentForm comment_hello))"
  "validate_on_submit comment_empty (CommentForm_validate comment_empty (CommentForm comment_empty))"
  "map_of (req_form comment_hello) ''comment'' = Some ''Hello''"
  "map_of (req_form comment_empty) ''comment'' = Some []"
  by (simp_all add: comment_form_valid_iff comment_hello_def comment_empty_def post_request_def)

text \<open>
  C8. A comment submission is a request for which \<^verbatim>\<open>validate_on_submit\<close> holds (a POST
  with a valid token; the form has no other validator). From the anonymous identity no
  request at all changes the comments table, and a submission is answered by the redirect
  to \<^verbatim>\<open>login\<close> with the notice flashed. From an authenticated user, a submission that
  carries the \<^verbatim>\<open>comment\<close> field, on the page of an existing post, adds exactly one row
  at the end of the table; its parent-post reference is the requested post and its
  author reference is the requesting user.
\<close>

theorem comment_post:
  "(current_user w = Anonymous \<longrightarrow>
      comments (snd (show_post post_id e r w)) = comments w
      \<and> (validate_on_submit r (CommentForm_validate r (CommentForm r)) \<longrightarrow>
           show_post post_id e r w =
             (Redirect Login None, flash ''You need to Login to comment'' w)))
   \<and> (current_user w = Authenticated u
        \<and> validate_on_submit r (CommentForm_validate r (CommentForm r))
        \<and> map_of (req_form r) ''comment'' = Some t
        \<and> get_post w post_id = Some p \<longrightarrow>
      (\<exists>c. comments (snd (show_post post_id e r w)) = comments w @ [c]
           \<and> c_post_id c = Some post_id \<and> c_post_id c = Some (bp_id p)
           \<and> c_author_id c = Some (u_id u) \<and> c_text c = t))"
proof (intro conjI impI)
  assume "current_user w = Anonymous"
  then show "comments (snd (show_post post_id e r w)) = comments w"
    by (simp add: show_post_anonymous flash_def)
next
  assume "current_user w = Anonymous"
    and "validate_on_submit r (CommentForm_validate r (CommentForm r))"
  then show "show_post post_id e r w =
      (Redirect Login None, flash ''You need to Login to comment'' w)"
    by (simp add: show_post_anonymous comment_form_valid_iff)
next
  assume a: "current_user w = Authenticated u
        \<and> validate_on_submit r (CommentForm_validate r (CommentForm r))
        \<and> map_of (req_form r) ''comment'' = Some t
        \<and> get_post w post_id = Some p"
  then have "bp_id p = post_id" by (auto dest: get_post_id)
  with a show "\<exists>c. comments (snd (show_post post_id e r w)) = comments w @ [c]
           \<and> c_post_id c = Some post_id \<and> c_post_id c = Some (bp_id p)
           \<and> c_author_id c = Some (u_id u) \<and> c_text c = t"
    by (simp add: show_post_authenticated comment_form_valid_iff)
qed

theorem comment_post_witness:
  "current_user (demo_world None) = Anonymous
   \<and> current_user (demo_world (Some 2)) = Authenticated bob
   \<and> validate_on_submit comment_hello (CommentForm_validate comment_hello (CommentForm comment_hello))
   \<and> map_of (req_form comment_hello) ''comment'' = Some ''Hello''
   \<and> get_post (demo_world (Some 2)) 1 = Some post_A
   \<and> show_post 1 demo_env comment_hello (demo_world None) =
        (Redirect Login None, flash ''You need to Login to comment'' (demo_world None))
   \<and> comments (snd (show_post 1 demo_env comment_hello (demo_world None))) = [comment_1]
   \<and> (\<exists>c. comments (snd (show_post 1 demo_env comment_hello (demo_world (Some 2))))
              = comments (demo_world (Some 2)) @ [c]
           \<and> c_post_id c = Some 1 \<and> c_author_id c = Some 2 \<and> c_text c = ''Hello'')"
proof -
  have valid: "validate_on_submit comment_hello
      (CommentForm_validate comment_hello (CommentForm comment_hello))"
    by (simp add: comment_form_valid_iff comment_hello_def post_request_def)
  have field: "map_of (req_form comment_hello) ''comment'' = Some ''Hello''"
    by (simp add: comment_hello_def post_request_def)
  have ids: "u_id bob = 2" "comments (demo_world None) = [comment_1]"
    by (simp_all add: bob_def demo_world_def)
  show ?thesis
    using comment_post [where w = "demo_world None" and post_id = 1 and e = demo_env
          and r = comment_hello]
      comment_post [where w = "demo_world (Some 2)" and post_id = 1 and e = demo_env
          and r = comment_hello and u = bob and t = "''Hello''" and p = post_A]
      valid field ids demo_current_user demo_get_post
    by (auto simp: flash_def)
qed

text \<open>
  What the handler does with a comment submission by an authenticated user: the comment is
  stored, and then the expression \<^verbatim>\<open>redirect(url_for('show_post'))\<close> raises
  \<^verbatim>\<open>BuildError\<close>, because the route needs a \<^verbatim>\<open>post_id\<close> that the call does not give.
  The outcome is neither a redirect nor a rendering of the post page. The comment list the
  handler had queried at its start does not hold the new row.
\<close>

lemma show_post_comment_raises:
  assumes "validate_on_submit r (CommentForm_validate r (CommentForm r))"
    and "current_user w = Authenticated u"
    and "map_of (req_form r) ''comment'' = Some t"
  shows "fst (show_post post_id e r w) = Raised BuildError
    \<and> (\<forall>ep v. fst (show_post post_id e r w) \<noteq> Redirect ep v)
    \<and> (\<forall>page. fst (show_post post_id e r w) \<noteq> Render page)
    \<and> (\<exists>c. comments (snd (show_post post_id e r w)) = comments w @ [c] \<and> c_text c = t
           \<and> c \<notin> set (filter_by_post_id w post_id))"
proof -
  let ?c = "\<lparr>c_id = next_id (map c_id (comments w)), c_author_id = Some (u_id u),
            c_post_id = map_option bp_id (get_post w post_id), c_text = t\<rparr>"
  have run: "show_post post_id e r w = (Raised BuildError, w\<lparr>comments := comments w @ [?c]\<rparr>)"
    using assms by (simp add: show_post_authenticated comment_form_valid_iff)
  have fresh: "?c \<notin> set (comments w)"
  proof
    assume "?c \<in> set (comments w)"
    then have "c_id ?c \<in> c_id ` set (comments w)" by (rule imageI)
    then show False using next_id_fresh [of "map c_id (comments w)"] by simp
  qed
  show ?thesis using run fresh by (simp add: filter_by_post_id_def)
qed

text \<open>
  C10 says that a valid comment POST by an authenticated user is answered by a rendering
  of the post page, with the comment list queried before the insert. The code does not
  get there: user 2 commenting \<^verbatim>\<open>Hello\<close> on post 1 has the comment stored as row 2,
  and the request then ends in the \<^verbatim>\<open>BuildError\<close> of line 172; the response is not the
  page with the earlier comment.
\<close>

theorem comment_response_build_error:
  "fst (show_post 1 demo_env comment_hello (demo_world (Some 2))) = Raised BuildError
   \<and> fst (show_post 1 demo_env comment_hello (demo_world (Some 2)))
       \<noteq> Render (Post_html (Some post_A) [comment_1])
   \<and> comments (snd (show_post 1 demo_env comment_hello (demo_world (Some 2)))) =
       [comment_1, \<lparr>c_id = 2, c_author_id = Some 2, c_post_id = Some 1, c_text = ''Hello''\<rparr>]"
  by (simp add: show_post_authenticated [where u = bob and t = "''Hello''"]
      demo_current_user demo_get_post comment_hello_def post_request_def)
    (simp add: demo_world_def next_id_def comment_1_def bob_def post_A_def)

text \<open>
  C4, as the code has it. The comments table changes exactly when the request is a
  comment submission (a POST with a valid token) by an authenticated user that carries
  the \<^verbatim>\<open>comment\<close> field; the row then added holds the submitted text as it is, the
  empty text included, since \<^verbatim>\<open>CommentForm\<close> declares no validator.
\<close>

theorem comment_created_iff:
  "(comments (snd (show_post post_id e r w)) \<noteq> comments w \<longleftrightarrow>
      validate_on_submit r (CommentForm_validate r (CommentForm r))
      \<and> is_authenticated (current_user w)
      \<and> map_of (req_form r) ''comment'' \<noteq> None)
   \<and> (\<forall>t. comments (snd (show_post post_id e r w)) \<noteq> comments w
         \<and> map_of (req_form r) ''comment'' = Some t \<longrightarrow>
         (\<exists>c. comments (snd (show_post post_id e r w)) = comments w @ [c] \<and> c_text c = t))"
proof (cases "validate_on_submit r (CommentForm_validate r (CommentForm r))")
  case False
  then have "show_post post_id e r w =
      (Render (Post_html (get_post w post_id) (filter_by_post_id w post_id)), w)"
    by (simp add: show_post_def Let_def)
  with False show ?thesis by simp
next
  case True
  then have post: "req_method r = POST" "req_csrf_ok r"
    by (simp_all add: comment_form_valid_iff)
  show ?thesis
  proof (cases "current_user w")
    case Anonymous
    with True show ?thesis
      by (simp add: show_post_anonymous post flash_def is_authenticated_def)
  next
    case (Authenticated u)
    show ?thesis
    proof (cases "map_of (req_form r) ''comment''")
      case None
      with True Authenticated post show ?thesis
        by (simp add: show_post_def Let_def comment_form_data)
    next
      case (Some t)
      with True Authenticated post show ?thesis
        by (simp add: show_post_authenticated is_authenticated_def)
    qed
  qed
qed

theorem comment_created_iff_witness:
  "validate_on_submit comment_empty (CommentForm_validate comment_empty (CommentForm comment_empty))
   \<and> is_authenticated (current_user (demo_world (Some 1)))
   \<and> map_of (req_form comment_empty) ''comment'' = Some []
   \<and> comments (snd (show_post 2 demo_env comment_empty (demo_world (Some 1))))
       \<noteq> comments (demo_world (Some 1))
   \<and> (\<exists>c. comments (snd (show_post 2 demo_env comment_empty (demo_world (Some 1))))
             = comments (demo_world (Some 1)) @ [c]
           \<and> c_text c = [])"
proof -
  have auth: "is_authenticated (current_user (demo_world (Some 1)))"
    by (simp add: demo_current_user is_authenticated_def)
  show ?thesis
    using comment_created_iff [where r = comment_empty and w = "demo_world (Some 1)"
        and post_id = 2 and e = demo_env]
      demo_comment_requests auth
    by simp
qed

text \<open>
  C4 as stated (an empty comment never adds a row) fails: user 2 submitting the empty
  text on post 1 adds comment 2 with empty text.
\<close>

theorem empty_comment_counterexample:
  "comments (snd (show_post 1 demo_env comment_empty (demo_world (Some 2)))) =
     [comment_1, \<lparr>c_id = 2, c_author_id = Some 2, c_post_id = Some 1, c_text = []\<rparr>]"
  by (simp add: show_post_authenticated [where u = bob and t = "[]"]
      demo_current_user demo_get_post comment_empty_def post_request_def)
    (simp add: demo_world_def next_id_def comment_1_def bob_def post_A_def)

subsection \<open>The date format\<close>

lemma digit_char_mod [simp]: "digit_char (n mod 10) = digit_char n"
  by (simp add: digit_char_def)

lemma is_digit_digit_char [simp]: "is_digit (digit_char n)"
  unfolding is_digit_def digit_char_def by (rule nth_mem) simp

lemma is_digit_zero: "is_digit CHR ''0''"
  by (simp add: is_digit_def)

lemma dec_1: "n < 10 \<Longrightarrow> dec n = [digit_char n]"
  by (simp add: dec.simps)

lemma dec_2: "10 \<le> n \<Longrightarrow> n < 100 \<Longrightarrow> dec n = [digit_char (n div 10), digit_char n]"
  by (subst dec.simps) (simp add: dec_1)

lemma dec_3:
  "100 \<le> n \<Longrightarrow> n < 1000 \<Longrightarrow>
     dec n = [digit_char (n div 100), digit_char (n div 10), digit_char n]"
  by (subst dec.simps) (simp add: dec_2 div_mult2_eq [symmetric])

lemma dec_4:
  "1000 \<le> n \<Longrightarrow> n < 10000 \<Longrightarrow>
     dec n = [digit_char (n div 1000), digit_char (n div 100), digit_char (n div 10),
              digit_char n]"
  by (subst dec.simps) (simp add: dec_3 div_mult2_eq [symmetric])

lemma pad2_digits:
  "n < 100 \<Longrightarrow> \<exists>a b. pad2 n = [a, b] \<and> is_digit a \<and> is_digit b"
  by (cases "n < 10") (simp_all add: pad2_def dec_1 dec_2 is_digit_zero)

lemma month_name_listed:
  assumes "1 \<le> m" "m \<le> 12"
  shows "month_name m \<in> set month_names"
proof -
  have "m = 1 \<or> m = 2 \<or> m = 3 \<or> m = 4 \<or> m = 5 \<or> m = 6 \<or> m = 7 \<or> m = 8 \<or> m = 9
      \<or> m = 10 \<or> m = 11 \<or> m = 12"
    using assms by arith
  then show ?thesis
    by (auto simp: month_name_def month_names_def)
qed

lemma strftime_format: "valid_date d \<Longrightarrow> is_Month_DD_YYYY (strftime_B_d_Y d)"
proof -
  assume v: "valid_date d"
  then have "day d < 100" by (simp add: valid_date_def)
  then obtain a b where dd: "pad2 (day d) = [a, b]" "is_digit a" "is_digit b"
    using pad2_digits by blast
  have yy: "dec (year d) = [digit_char (year d div 1000), digit_char (year d div 100),
      digit_char (year d div 10), digit_char (year d)]"
    using v by (intro dec_4) (simp_all add: valid_date_def)
  have rest: "is_DD_YYYY ('' '' @ pad2 (day d) @ '', '' @ dec (year d))"
    by (simp add: dd yy is_DD_YYYY_def)
  have name: "month_name (month d) \<in> set month_names"
    using v by (intro month_name_listed) (simp_all add: valid_date_def)
  show ?thesis
    unfolding is_Month_DD_YYYY_def list_ex_iff strftime_B_d_Y_def
    using name rest by (intro bexI [of _ "month_name (month d)"]) simp_all
qed

lemma strftime_demo: "strftime_B_d_Y (today demo_env) = ''November 03, 2026''"
  by (simp add: strftime_B_d_Y_def demo_env_def month_name_def pad2_def dec_1 dec_4
      digit_char_def)

lemma digit_value_nth:
  assumes "k < 10"
  shows "digit_value (''0123456789'' ! k) = k"
proof -
  have "k = 0 \<or> k = 1 \<or> k = 2 \<or> k = 3 \<or> k = 4 \<or> k = 5 \<or> k = 6 \<or> k = 7 \<or> k = 8 \<or> k = 9"
    using assms by arith
  then show ?thesis
    by (elim disjE) (simp_all add: digit_value_def)
qed

lemma digit_value_digit_char [simp]: "digit_value (digit_char n) = n mod 10"
  unfolding digit_char_def by (rule digit_value_nth) simp

lemma digit_value_zero [simp]: "digit_value CHR ''0'' = 0"
  by (simp add: digit_value_def)

lemma number_pad2:
  assumes "n < 100"
  shows "number (pad2 n) = n"
proof (cases "n < 10")
  case True
  then show ?thesis by (simp add: pad2_def dec_1 number_def)
next
  case False
  have "n div 10 < 10" using assms by simp
  then have hi: "n div 10 mod 10 = n div 10" by simp
  have "10 * (n div 10) + n mod 10 = n" by simp
  with False assms hi show ?thesis by (simp add: pad2_def dec_2 number_def)
qed

lemma decimal_4:
  "(n::nat) = 10 * x1 + d0 \<Longrightarrow> x1 = 10 * x2 + d1 \<Longrightarrow> x2 = 10 * x3 + d2 \<Longrightarrow>
     10 * (10 * (10 * x3 + d2) + d1) + d0 = n"
  by simp

lemma number_dec_4:
  assumes "1000 \<le> n" "n < 10000"
  shows "number (dec n) = n"
proof -
  have "n div 1000 < 10" using assms by simp
  then have hi: "n div 1000 mod 10 = n div 1000" by simp
  have a: "n = 10 * (n div 10) + n mod 10" by simp
  have "n div 10 = 10 * (n div 10 div 10) + n div 10 mod 10" by simp
  then have b: "n div 10 = 10 * (n div 100) + n div 10 mod 10"
    by (simp add: div_mult2_eq [symmetric])
  have "n div 100 = 10 * (n div 100 div 10) + n div 100 mod 10" by simp
  then have c: "n div 100 = 10 * (n div 1000) + n div 100 mod 10"
    by (simp add: div_mult2_eq [symmetric])
  have "number (dec n) =
      10 * (10 * (10 * (n div 1000) + n div 100 mod 10) + n div 10 mod 10) + n mod 10"
    using assms hi by (simp add: dec_4 number_def)
  also have "\<dots> = n" using a b c by (rule decimal_4)
  finally show ?thesis .
qed

lemma pad2_length: "n < 100 \<Longrightarrow> length (pad2 n) = 2"
  using pad2_digits [of n] by auto

lemma stamp_rest:
  assumes "valid_date d"
  shows "is_DD_YYYY ('' '' @ pad2 (day d) @ '', '' @ dec (year d))"
    and "take 2 (drop 1 ('' '' @ pad2 (day d) @ '', '' @ dec (year d))) = pad2 (day d)"
    and "drop 5 ('' '' @ pad2 (day d) @ '', '' @ dec (year d)) = dec (year d)"
proof -
  from assms have "day d < 100" by (simp add: valid_date_def)
  then obtain a b where dd: "pad2 (day d) = [a, b]" "is_digit a" "is_digit b"
    using pad2_digits by blast
  have yy: "dec (year d) = [digit_char (year d div 1000), digit_char (year d div 100),
      digit_char (year d div 10), digit_char (year d)]"
    using assms by (intro dec_4) (simp_all add: valid_date_def)
  show "is_DD_YYYY ('' '' @ pad2 (day d) @ '', '' @ dec (year d))"
    by (simp add: dd yy is_DD_YYYY_def)
  show "take 2 (drop 1 ('' '' @ pad2 (day d) @ '', '' @ dec (year d))) = pad2 (day d)"
    by (simp add: dd)
  show "drop 5 ('' '' @ pad2 (day d) @ '', '' @ dec (year d)) = dec (year d)"
    by (simp add: dd)
qed

lemma find_month:
  assumes m: "1 \<le> m" "m \<le> 12" and shape: "is_DD_YYYY rest"
  shows "find (\<lambda>(name, k). take (length name) (month_name m @ rest) = name
                         \<and> is_DD_YYYY (drop (length name) (month_name m @ rest))) month_table
         = Some (month_name m, m)"
proof -
  have "m = 1 \<or> m = 2 \<or> m = 3 \<or> m = 4 \<or> m = 5 \<or> m = 6 \<or> m = 7 \<or> m = 8 \<or> m = 9
      \<or> m = 10 \<or> m = 11 \<or> m = 12"
    using m by arith
  then show ?thesis
    using shape by (elim disjE) (simp_all add: month_name_def month_table_def)
qed

text \<open>
  The stamp carries the date: reading the formatted string back gives the month, day and
  year that were formatted.
\<close>

lemma parse_strftime:
  assumes v: "valid_date d"
  shows "parse_Month_DD_YYYY (strftime_B_d_Y d) = Some d"
proof -
  let ?rest = "'' '' @ pad2 (day d) @ '', '' @ dec (year d)"
  have m: "1 \<le> month d" "month d \<le> 12" and dy: "day d < 100"
    and yr: "1000 \<le> year d" "year d < 10000"
    using v by (simp_all add: valid_date_def)
  have found: "find (\<lambda>(name, k). take (length name) (month_name (month d) @ ?rest) = name
                         \<and> is_DD_YYYY (drop (length name) (month_name (month d) @ ?rest)))
                 month_table = Some (month_name (month d), month d)"
    using m stamp_rest(1) [OF v] by (rule find_month)
  have "parse_Month_DD_YYYY (month_name (month d) @ ?rest) =
      Some \<lparr>year = number (drop 5 ?rest), month = month d,
            day = number (take 2 (drop 1 ?rest))\<rparr>"
    unfolding parse_Month_DD_YYYY_def found by (simp add: Let_def)
  also have "\<dots> = Some \<lparr>year = year d, month = month d, day = day d\<rparr>"
    unfolding stamp_rest(2,3) [OF v] by (simp add: number_pad2 [OF dy] number_dec_4 [OF yr])
  finally show ?thesis
    by (simp add: strftime_B_d_Y_def)
qed

subsection \<open>New posts\<close>

lemma add_new_post_body_posts:
  "blog_posts (snd (add_new_post_body e r w)) = blog_posts w
   \<or> (\<exists>u t s b i. current_user w = Authenticated u
        \<and> blog_posts (snd (add_new_post_body e r w)) =
            blog_posts w @
              [\<lparr>bp_id = next_id (map bp_id (blog_posts w)), bp_author_id = Some (u_id u),
                bp_title = t, bp_subtitle = s, bp_date = strftime_B_d_Y (today e),
                bp_body = b, bp_img_url = i\<rparr>])"
  by (simp add: add_new_post_body_def Let_def split: identity.splits option.splits)

lemma add_new_post_body_users: "users (snd (add_new_post_body e r w)) = users w"
  by (simp add: add_new_post_body_def Let_def redirect_simps
      split: identity.splits option.splits)

lemma demo_add_new_post:
  "blog_posts (snd (add_new_post demo_env new_post_request (demo_world (Some 1)))) =
     [post_A, post_B, demo_new_post]"
  by (simp add: add_new_post_def admin_only_admitted is_admin_demo)
     (simp add: add_new_post_body_def Let_def CreatePostForm_validate_def CreatePostForm_def
       no_defaults_def form_defs new_post_request_def post_request_def demo_current_user
       redirect_simps strftime_demo demo_new_post_def next_id_def,
      simp add: demo_defs form_defs)

text \<open>
  C9. Every post that the route \<^verbatim>\<open>/new-post\<close> adds to storage carries the date
  \<^verbatim>\<open>date.today().strftime("%B %d, %Y")\<close> of the moment of creation. For a calendar date
  that string has the form \<^verbatim>\<open>Month DD, YYYY\<close>, and reading it back by that format gives
  exactly the server's current month, day and year. The author reference of the post is
  the id of the identity that made the request, who is the authenticated administrator,
  and the author relationship of the stored post resolves to that user.
\<close>

theorem new_post_stamped:
  assumes created: "p \<in> set (blog_posts (snd (add_new_post e r w)))"
    and new: "p \<notin> set (blog_posts w)"
  shows "bp_date p = strftime_B_d_Y (today e)
    \<and> (valid_date (today e) \<longrightarrow>
         is_Month_DD_YYYY (bp_date p) \<and> parse_Month_DD_YYYY (bp_date p) = Some (today e))
    \<and> is_admin w
    \<and> (\<exists>u. current_user w = Authenticated u \<and> bp_author_id p = Some (u_id u)
          \<and> post_author (snd (add_new_post e r w)) p = Some u)"
proof -
  have admin: "is_admin w"
  proof (rule ccontr)
    assume "\<not> is_admin w"
    then have "add_new_post e r w = (Abort 403, w)"
      by (simp add: add_new_post_def admin_only_rejected)
    with created new show False by simp
  qed
  then have body: "add_new_post e r w = add_new_post_body e r w"
    by (simp add: add_new_post_def admin_only_admitted)
  from add_new_post_body_posts [of e r w] created new body
  obtain u t s b i where u: "current_user w = Authenticated u"
    and p: "p = \<lparr>bp_id = next_id (map bp_id (blog_posts w)), bp_author_id = Some (u_id u),
                bp_title = t, bp_subtitle = s, bp_date = strftime_B_d_Y (today e),
                bp_body = b, bp_img_url = i\<rparr>"
    by auto
  have "user_load (snd (add_new_post e r w)) (u_id u) = user_load w (u_id u)"
    by (simp add: body user_load_def add_new_post_body_users)
  then have author: "post_author (snd (add_new_post e r w)) p = Some u"
    using current_user_loaded [OF u] by (simp add: post_author_def p)
  show ?thesis
    using admin u p author by (simp add: strftime_format parse_strftime)
qed

theorem new_post_stamped_witness:
  "demo_new_post \<in> set (blog_posts (snd (add_new_post demo_env new_post_request (demo_world (Some 1)))))
   \<and> demo_new_post \<notin> set (blog_posts (demo_world (Some 1)))
   \<and> valid_date (today demo_env)
   \<and> bp_date demo_new_post = ''November 03, 2026''
   \<and> is_Month_DD_YYYY (bp_date demo_new_post)
   \<and> parse_Month_DD_YYYY (bp_date demo_new_post) = Some \<lparr>year = 2026, month = 11, day = 3\<rparr>
   \<and> bp_author_id demo_new_post = Some (u_id admin_user)"
proof -
  have created: "demo_new_post \<in>
      set (blog_posts (snd (add_new_post demo_env new_post_request (demo_world (Some 1)))))"
    by (simp add: demo_add_new_post)
  have new: "demo_new_post \<notin> set (blog_posts (demo_world (Some 1)))"
    by (simp add: demo_world_def demo_new_post_def post_A_def post_B_def)
  have valid: "valid_date (today demo_env)"
    by (simp add: valid_date_def demo_env_def)
  have today: "today demo_env = \<lparr>year = 2026, month = 11, day = 3\<rparr>"
    by (simp add: demo_env_def)
  have stamp: "strftime_B_d_Y \<lparr>year = 2026, month = 11, day = 3\<rparr> = ''November 03, 2026''"
    using strftime_demo by (simp add: demo_env_def)
  show ?thesis
    using new_post_stamped [OF created new] created new valid today stamp
    by (auto simp: demo_current_user)
qed

subsection \<open>Editing a post\<close>

lemma post_title_data:
  "map_of (req_form r) ''title'' = Some t \<Longrightarrow> validate_on_submit r valid \<Longrightarrow>
     cpf_title (CreatePostForm kwargs r) = Some t"
  by (simp add: CreatePostForm_def process_def formdata_def validate_on_submit_def)

lemma edit_post_body_title_taken:
  assumes other: "pb \<in> set (blog_posts w)" "bp_id pb \<noteq> a"
    and title: "map_of (req_form r) ''title'' = Some (bp_title pb)"
  shows "snd (edit_post_body a e r w) = w"
    and "fst (edit_post_body a e r w) \<noteq> Redirect ep v"
    and "get_post w a = Some pa \<Longrightarrow> post_author w pa = Some au \<Longrightarrow>
         validate_on_submit r (CreatePostForm_validate e r (CreatePostForm (prefill pa au) r)) \<Longrightarrow>
         fst (edit_post_body a e r w) = Raised IntegrityError"
proof -
  have taken: "list_ex (\<lambda>q. bp_id q \<noteq> bp_id pa \<and> bp_title q = bp_title pb) (blog_posts w)"
    if "get_post w a = Some pa" for pa
    using other get_post_id [OF that] by (auto simp: list_ex_iff)
  show "snd (edit_post_body a e r w) = w"
    using taken
    by (auto simp: edit_post_body_def Let_def post_title_data [OF title]
        split: option.splits)
  show "fst (edit_post_body a e r w) \<noteq> Redirect ep v"
    using taken
    by (auto simp: edit_post_body_def Let_def post_title_data [OF title]
        split: option.splits)
  show "get_post w a = Some pa \<Longrightarrow> post_author w pa = Some au \<Longrightarrow>
         validate_on_submit r (CreatePostForm_validate e r (CreatePostForm (prefill pa au) r)) \<Longrightarrow>
         fst (edit_post_body a e r w) = Raised IntegrityError"
    using taken
    by (auto simp: edit_post_body_def Let_def post_title_data [OF title]
        split: option.splits)
qed

lemma find_map_preserving:
  "(\<And>x. P (f x) = P x) \<Longrightarrow> find P (map f xs) = map_option f (find P xs)"
  by (induction xs) auto

lemma post_author_id: "post_author w p = Some u \<Longrightarrow> bp_author_id p = Some (u_id u)"
  by (auto simp: post_author_def split: option.splits dest: user_load_id)

lemma edit_post_body_success:
  assumes "edit_post_body a e r w = (Redirect ep v, w')"
  shows "\<exists>pa au t s i n b.
     get_post w a = Some pa \<and> post_author w pa = Some au
     \<and> validate_on_submit r (CreatePostForm_validate e r (CreatePostForm (prefill pa au) r))
     \<and> cpf_title (CreatePostForm (prefill pa au) r) = Some t
     \<and> cpf_subtitle (CreatePostForm (prefill pa au) r) = Some s
     \<and> cpf_img_url (CreatePostForm (prefill pa au) r) = Some i
     \<and> cpf_author (CreatePostForm (prefill pa au) r) = Some n
     \<and> cpf_body (CreatePostForm (prefill pa au) r) = Some b
     \<and> ep = Show_post \<and> v = Some a
     \<and> w' = w\<lparr>blog_posts :=
                  map (\<lambda>q. if bp_id q = a
                            then q\<lparr>bp_title := t, bp_subtitle := s, bp_img_url := i,
                                   bp_body := b\<rparr>
                            else q) (blog_posts w),
                users :=
                  map (\<lambda>x. if u_id x = u_id au then x\<lparr>u_name := n\<rparr> else x) (users w)\<rparr>"
  using assms
  by (auto simp: edit_post_body_def Let_def redirect_simps
      split: option.splits if_splits dest: get_post_id)

lemma demo_post_author:
  "post_author (demo_world s) post_A = Some admin_user"
  "post_author (demo_world s) post_B = Some admin_user"
  by (simp_all add: post_author_def user_load_def demo_world_def post_A_def post_B_def
      admin_user_def)

lemma demo_edit_valid:
  "validate_on_submit edit_A_title_B
     (CreatePostForm_validate demo_env edit_A_title_B
        (CreatePostForm (prefill post_A admin_user) edit_A_title_B))"
  "validate_on_submit edit_A_ok
     (CreatePostForm_validate demo_env edit_A_ok
        (CreatePostForm (prefill post_A admin_user) edit_A_ok))"
  by (simp_all add: CreatePostForm_validate_def CreatePostForm_def form_defs
      edit_A_title_B_def edit_A_ok_def post_request_def demo_env_def)

lemma demo_edit_ok:
  "edit_post 1 demo_env edit_A_ok (demo_world (Some 1)) =
     (Redirect Show_post (Some 1), demo_world_edited)"
  by (simp add: edit_post_def admin_only_admitted is_admin_demo)
     (simp add: edit_post_body_def demo_get_post demo_post_author demo_edit_valid Let_def,
      simp add: CreatePostForm_def process_def formdata_def is_submitted_def edit_A_ok_def
        post_request_def redirect_simps demo_world_edited_def demo_world_def post_A_def
        post_B_def admin_user_def bob_def)

text \<open>
  C2, as the code has it. Let B be a stored post other than the post A being edited, and
  let the request carry B's title in its \<^verbatim>\<open>title\<close> field. Then the edit is never applied
  and never answered by the redirect of a successful edit: the stored state after the
  request is the state before it. When the administrator's submission validates, the
  handler ends in the \<^verbatim>\<open>IntegrityError\<close> that the unique title column raises at the
  commit; the form itself has no rule about titles in use and reports nothing.
\<close>

theorem edit_title_taken:
  assumes other: "pb \<in> set (blog_posts w)" "bp_id pb \<noteq> a"
    and title: "map_of (req_form r) ''title'' = Some (bp_title pb)"
  shows "snd (edit_post a e r w) = w
    \<and> (\<forall>ep v. fst (edit_post a e r w) \<noteq> Redirect ep v)
    \<and> (\<forall>pa au. is_admin w \<and> get_post w a = Some pa \<and> post_author w pa = Some au
          \<and> validate_on_submit r
               (CreatePostForm_validate e r (CreatePostForm (prefill pa au) r)) \<longrightarrow>
          edit_post a e r w = (Raised IntegrityError, w))"
proof (cases "is_admin w")
  case False
  then show ?thesis by (simp add: edit_post_def admin_only_rejected)
next
  case True
  then have body: "edit_post a e r w = edit_post_body a e r w"
    by (simp add: edit_post_def admin_only_admitted)
  show ?thesis
    unfolding body
    using edit_post_body_title_taken [OF other title, where e = e]
    by (auto simp: prod_eq_iff)
qed

theorem edit_title_taken_witness:
  "post_B \<in> set (blog_posts (demo_world (Some 1)))
   \<and> bp_id post_B \<noteq> 1
   \<and> map_of (req_form edit_A_title_B) ''title'' = Some (bp_title post_B)
   \<and> is_admin (demo_world (Some 1))
   \<and> get_post (demo_world (Some 1)) 1 = Some post_A
   \<and> post_author (demo_world (Some 1)) post_A = Some admin_user
   \<and> validate_on_submit edit_A_title_B
        (CreatePostForm_validate demo_env edit_A_title_B
           (CreatePostForm (prefill post_A admin_user) edit_A_title_B))
   \<and> edit_post 1 demo_env edit_A_title_B (demo_world (Some 1)) =
        (Raised IntegrityError, demo_world (Some 1))"
proof -
  have other: "post_B \<in> set (blog_posts (demo_world (Some 1)))" "bp_id post_B \<noteq> 1"
    by (simp_all add: demo_world_def post_B_def)
  have title: "map_of (req_form edit_A_title_B) ''title'' = Some (bp_title post_B)"
    by (simp add: edit_A_title_B_def post_request_def post_B_def)
  show ?thesis
    using edit_title_taken [OF other title, where e = demo_env]
      other title is_admin_demo demo_get_post demo_post_author demo_edit_valid
    by simp
qed

text \<open>
  C2 as stated (the edit fails with a validation error) fails: the administrator editing
  post 1 with the title of post 2 gets the escaped \<^verbatim>\<open>IntegrityError\<close>, not the form
  rendered again with its errors.
\<close>

theorem edit_title_taken_counterexample:
  "fst (edit_post 1 demo_env edit_A_title_B (demo_world (Some 1))) = Raised IntegrityError
   \<and> fst (edit_post 1 demo_env edit_A_title_B (demo_world (Some 1))) \<noteq>
       Render (Make_post_html
         (form_fields (CreatePostForm (prefill post_A admin_user) edit_A_title_B)))"
  by (simp add: edit_post_def admin_only_admitted is_admin_demo)
     (simp add: edit_post_body_def demo_get_post demo_post_author demo_edit_valid Let_def,
      simp add: CreatePostForm_def process_def formdata_def is_submitted_def
        edit_A_title_B_def post_request_def demo_world_def post_A_def post_B_def)

text \<open>
  C6. After a successful edit of post \<open>a\<close> (the handler answers with its redirect), with
  \<open>t\<close>, \<open>s\<close>, \<open>i\<close>, \<open>n\<close>, \<open>b\<close> the title, subtitle, image URL, author name and body
  of the submitted form: every post row keeps its id, date and author reference; the rows
  with id \<open>a\<close> have the submitted title, subtitle, image URL and body, and every other
  row is as before; every user row keeps its id, email and password; the author's row has
  the submitted name and every other user row is as before; the comments and the session
  are as before. Every post that refers to the same author shows the new name.
\<close>

theorem edit_post_frame:
  assumes ok: "edit_post a e r w = (Redirect ep v, w')"
  shows "\<exists>pa au t s i n b.
     get_post w a = Some pa \<and> post_author w pa = Some au
     \<and> CreatePostForm (prefill pa au) r =
         \<lparr>cpf_title = Some t, cpf_img_url = Some i, cpf_subtitle = Some s,
          cpf_author = Some n, cpf_body = Some b\<rparr>
     \<and> length (blog_posts w') = length (blog_posts w)
     \<and> (\<forall>k < length (blog_posts w).
           bp_id (blog_posts w' ! k) = bp_id (blog_posts w ! k)
           \<and> bp_date (blog_posts w' ! k) = bp_date (blog_posts w ! k)
           \<and> bp_author_id (blog_posts w' ! k) = bp_author_id (blog_posts w ! k)
           \<and> (bp_id (blog_posts w ! k) = a \<longrightarrow>
                bp_title (blog_posts w' ! k) = t \<and> bp_subtitle (blog_posts w' ! k) = s
                \<and> bp_img_url (blog_posts w' ! k) = i \<and> bp_body (blog_posts w' ! k) = b)
           \<and> (bp_id (blog_posts w ! k) \<noteq> a \<longrightarrow> blog_posts w' ! k = blog_posts w ! k))
     \<and> length (users w') = length (users w)
     \<and> (\<forall>k < length (users w).
           u_id (users w' ! k) = u_id (users w ! k)
           \<and> u_email (users w' ! k) = u_email (users w ! k)
           \<and> u_password (users w' ! k) = u_password (users w ! k)
           \<and> (u_id (users w ! k) = u_id au \<longrightarrow> u_name (users w' ! k) = n)
           \<and> (u_id (users w ! k) \<noteq> u_id au \<longrightarrow> users w' ! k = users w ! k))
     \<and> comments w' = comments w
     \<and> session_user_id w' = session_user_id w
     \<and> (\<forall>q \<in> set (blog_posts w').
           bp_author_id q = bp_author_id pa \<longrightarrow>
           map_option u_name (post_author w' q) = Some n)"
proof -
  have admin: "is_admin w"
  proof (rule ccontr)
    assume "\<not> is_admin w"
    then have "edit_post a e r w = (Abort 403, w)"
      by (simp add: edit_post_def admin_only_rejected)
    with ok show False by simp
  qed
  then have "edit_post_body a e r w = (Redirect ep v, w')"
    using ok by (simp add: edit_post_def admin_only_admitted)
  from edit_post_body_success [OF this]
  obtain pa au t s i n b where pa: "get_post w a = Some pa"
    and au: "post_author w pa = Some au"
    and form: "cpf_title (CreatePostForm (prefill pa au) r) = Some t"
      "cpf_subtitle (CreatePostForm (prefill pa au) r) = Some s"
      "cpf_img_url (CreatePostForm (prefill pa au) r) = Some i"
      "cpf_author (CreatePostForm (prefill pa au) r) = Some n"
      "cpf_body (CreatePostForm (prefill pa au) r) = Some b"
    and w': "w' = w\<lparr>blog_posts :=
                  map (\<lambda>q. if bp_id q = a
                            then q\<lparr>bp_title := t, bp_subtitle := s, bp_img_url := i,
                                   bp_body := b\<rparr>
                            else q) (blog_posts w),
                users :=
                  map (\<lambda>x. if u_id x = u_id au then x\<lparr>u_name := n\<rparr> else x) (users w)\<rparr>"
    by blast
  have form_eq: "CreatePostForm (prefill pa au) r =
         \<lparr>cpf_title = Some t, cpf_img_url = Some i, cpf_subtitle = Some s,
          cpf_author = Some n, cpf_body = Some b\<rparr>"
    using form by (simp add: CreatePostForm_def)
  have posts: "\<forall>k < length (blog_posts w).
           bp_id (blog_posts w' ! k) = bp_id (blog_posts w ! k)
           \<and> bp_date (blog_posts w' ! k) = bp_date (blog_posts w ! k)
           \<and> bp_author_id (blog_posts w' ! k) = bp_author_id (blog_posts w ! k)
           \<and> (bp_id (blog_posts w ! k) = a \<longrightarrow>
                bp_title (blog_posts w' ! k) = t \<and> bp_subtitle (blog_posts w' ! k) = s
                \<and> bp_img_url (blog_posts w' ! k) = i \<and> bp_body (blog_posts w' ! k) = b)
           \<and> (bp_id (blog_posts w ! k) \<noteq> a \<longrightarrow> blog_posts w' ! k = blog_posts w ! k)"
    by (simp add: w')
  have usrs: "\<forall>k < length (users w).
           u_id (users w' ! k) = u_id (users w ! k)
           \<and> u_email (users w' ! k) = u_email (users w ! k)
           \<and> u_password (users w' ! k) = u_password (users w ! k)
           \<and> (u_id (users w ! k) = u_id au \<longrightarrow> u_name (users w' ! k) = n)
           \<and> (u_id (users w ! k) \<noteq> u_id au \<longrightarrow> users w' ! k = users w ! k)"
    by (simp add: w')
  have author_key: "bp_author_id pa = Some (u_id au)"
    using au by (rule post_author_id)
  have loaded: "user_load w (u_id au) = Some au"
    using au author_key by (simp add: post_author_def)
  have loaded': "user_load w' (u_id au) = Some (au\<lparr>u_name := n\<rparr>)"
  proof -
    have "find (\<lambda>u. u_id u = u_id au)
            (map (\<lambda>x. if u_id x = u_id au then x\<lparr>u_name := n\<rparr> else x) (users w)) =
          map_option (\<lambda>x. if u_id x = u_id au then x\<lparr>u_name := n\<rparr> else x)
            (find (\<lambda>u. u_id u = u_id au) (users w))"
      by (rule find_map_preserving) simp
    then show ?thesis
      using loaded by (simp add: user_load_def w')
  qed
  have shared: "\<forall>q \<in> set (blog_posts w').
           bp_author_id q = bp_author_id pa \<longrightarrow>
           map_option u_name (post_author w' q) = Some n"
    using loaded' by (simp add: post_author_def author_key)
  show ?thesis
    using pa au form_eq posts usrs shared
    by (intro exI [of _ pa] exI [of _ au] exI [of _ t] exI [of _ s] exI [of _ i]
        exI [of _ n] exI [of _ b]) (simp add: w')
qed

theorem edit_post_frame_witness:
  "edit_post 1 demo_env edit_A_ok (demo_world (Some 1)) =
     (Redirect Show_post (Some 1), demo_world_edited)
   \<and> comments demo_world_edited = comments (demo_world (Some 1))
   \<and> post_B \<in> set (blog_posts demo_world_edited)
   \<and> bp_author_id post_B = bp_author_id post_A
   \<and> map_option u_name (post_author demo_world_edited post_B) = Some ''Root''"
proof -
  have form: "cpf_author (CreatePostForm (prefill post_A admin_user) edit_A_ok) = Some ''Root''"
    by (simp add: CreatePostForm_def process_def formdata_def is_submitted_def edit_A_ok_def
        post_request_def)
  have other: "post_B \<in> set (blog_posts demo_world_edited)"
    "bp_author_id post_B = bp_author_id post_A"
    by (simp_all add: demo_world_edited_def post_A_def post_B_def)
  show ?thesis
    using edit_post_frame [OF demo_edit_ok] demo_edit_ok demo_get_post demo_post_author form
      other
    by auto
qed

subsection \<open>Deleting a post\<close>

lemma delete_post_body_found:
  assumes "get_post w a = Some p"
  shows "delete_post_body a e r w =
     (Redirect Get_all_posts None,
      w\<lparr>blog_posts := filter (\<lambda>q. bp_id q \<noteq> a) (blog_posts w),
        comments := map (\<lambda>c. if c_post_id c = Some a then c\<lparr>c_post_id := None\<rparr> else c)
                      (comments w)\<rparr>)"
  using assms get_post_id [OF assms]
  by (simp add: delete_post_body_def redirect_simps)

text \<open>
  C5. When the administrator deletes a stored post \<open>a\<close>, the handler answers with the
  redirect to the index, and afterwards: no stored post has the id \<open>a\<close>; the list that
  \<^verbatim>\<open>get_all_posts\<close> renders does not hold the deleted post and still holds every other
  post; no comment row was removed (the table has the same keys and texts); the query for
  the comments of \<open>a\<close> is answered, with the empty list, since the rows that referred to
  \<open>a\<close> had their reference cleared; and a GET of the page of \<open>a\<close> returns a rendering,
  not an error.
\<close>

theorem delete_post_removes:
  assumes admin: "is_admin w"
    and stored: "get_post w a = Some p"
  shows "fst (delete_post a e r w) = Redirect Get_all_posts None
    \<and> (\<forall>q \<in> set (blog_posts (snd (delete_post a e r w))). bp_id q \<noteq> a)
    \<and> (\<exists>posts. fst (get_all_posts e r' (snd (delete_post a e r w))) = Render (Index_html posts)
          \<and> p \<notin> set posts
          \<and> (\<forall>q \<in> set (blog_posts w). bp_id q \<noteq> a \<longrightarrow> q \<in> set posts))
    \<and> get_post (snd (delete_post a e r w)) a = None
    \<and> map c_id (comments (snd (delete_post a e r w))) = map c_id (comments w)
    \<and> map c_text (comments (snd (delete_post a e r w))) = map c_text (comments w)
    \<and> filter_by_post_id (snd (delete_post a e r w)) a = []
    \<and> (req_method r' = GET \<longrightarrow>
         fst (show_post a e r' (snd (delete_post a e r w))) = Render (Post_html None []))"
proof -
  let ?w' = "w\<lparr>blog_posts := filter (\<lambda>q. bp_id q \<noteq> a) (blog_posts w),
        comments := map (\<lambda>c. if c_post_id c = Some a then c\<lparr>c_post_id := None\<rparr> else c)
                      (comments w)\<rparr>"
  have run: "delete_post a e r w = (Redirect Get_all_posts None, ?w')"
    using admin stored
    by (simp add: delete_post_def admin_only_admitted delete_post_body_found)
  have pid: "bp_id p = a"
    using stored by (rule get_post_id)
  have gone: "get_post ?w' a = None"
    by (simp add: get_post_def find_None_iff)
  have no_comments: "filter_by_post_id ?w' a = []"
    by (auto simp: filter_by_post_id_def filter_empty_conv)
  have ids: "map c_id (comments ?w') = map c_id (comments w)"
    "map c_text (comments ?w') = map c_text (comments w)"
    by (simp_all add: comp_def if_distrib cong: if_cong)
  have page: "req_method r' = GET \<Longrightarrow>
      fst (show_post a e r' ?w') = Render (Post_html None [])"
    using gone no_comments
    by (simp add: show_post_def Let_def validate_on_submit_def is_submitted_def)
  show ?thesis
    unfolding run using pid gone no_comments ids page
    by (simp add: get_all_posts_def)
qed

theorem delete_post_removes_witness:
  "is_admin (demo_world (Some 1))
   \<and> get_post (demo_world (Some 1)) 1 = Some post_A
   \<and> fst (delete_post 1 demo_env get_request (demo_world (Some 1))) = Redirect Get_all_posts None
   \<and> get_post (snd (delete_post 1 demo_env get_request (demo_world (Some 1)))) 1 = None
   \<and> map c_id (comments (snd (delete_post 1 demo_env get_request (demo_world (Some 1))))) = [1]
   \<and> filter_by_post_id (snd (delete_post 1 demo_env get_request (demo_world (Some 1)))) 1 = []
   \<and> fst (show_post 1 demo_env get_request
             (snd (delete_post 1 demo_env get_request (demo_world (Some 1)))))
       = Render (Post_html None [])"
proof -
  have admin: "is_admin (demo_world (Some 1))"
    by (rule is_admin_demo)
  have stored: "get_post (demo_world (Some 1)) 1 = Some post_A"
    by (rule demo_get_post)
  have ids: "map c_id (comments (demo_world (Some 1))) = [1]" "req_method get_request = GET"
    by (simp_all add: demo_world_def comment_1_def get_request_def)
  show ?thesis
    using delete_post_removes [OF admin stored, where e = demo_env and r = get_request
        and r' = get_request] admin stored ids
    by simp
qed

end
